theory Spec2Isabelle
  imports Complex_Main "HOL-Library.Word"
begin

section \<open>The conntrack netlink consumer\<close>

text \<open>
  A shallow embedding of the Consumer of the conntrack netlink package: socket
  initialisation, the throttling feedback step, the receive loop and the peer-namespace
  query. The kernel, the netlink library, the circuit breaker, the buffer pool and the
  namespace helper are collaborators outside the embedded file: every answer they give
  is an input of the model (a record of answers per call), and every call that changes
  them is written to a trace of effects, in program order.
\<close>

subsection \<open>Values\<close>

text \<open>
  A Go error is represented by its message, the only thing the code inspects.
\<close>

type_synonym error = string
type_synonym byte = "8 word"
type_synonym int64 = "64 word"
type_synonym Socket = nat

datatype Conn = NewConn Socket

subsection \<open>float64\<close>

text \<open>
  A float64 is a finite value, an infinity or NaN. The finite values are the real
  numbers of the binary64 format; the two zeros are one value here, which the code
  cannot tell apart (its only division divides by a converted integer, never by -0).
\<close>

datatype float64 = Finite real | PosInf | NegInf | NaN

text \<open>The number of binary digits of a natural number.\<close>

fun bitlen :: "nat \<Rightarrow> nat" where
  "bitlen n = (if n = 0 then 0 else Suc (bitlen (n div 2)))"

declare bitlen.simps [simp del]

definition pow2 :: "int \<Rightarrow> real" where
  "pow2 k = (if 0 \<le> k then 2 ^ nat k else 1 / 2 ^ nat (- k))"

text \<open>The binary exponent of a positive real a: the e with 2^e \<le> a < 2^(e+1).\<close>

definition expo :: "real \<Rightarrow> int" where
  "expo a = (if 1 \<le> a then int (bitlen (nat \<lfloor>a\<rfloor>)) - 1
             else - int (bitlen (nat (\<lceil>1 / a\<rceil> - 1))))"

definition roundHalfEven :: "real \<Rightarrow> int" where
  "roundHalfEven x =
     (if x - of_int \<lfloor>x\<rfloor> < 1 / 2 then \<lfloor>x\<rfloor>
      else if 1 / 2 < x - of_int \<lfloor>x\<rfloor> then \<lfloor>x\<rfloor> + 1
      else if even \<lfloor>x\<rfloor> then \<lfloor>x\<rfloor> else \<lfloor>x\<rfloor> + 1)"

text \<open>
  Rounding of an exact result to float64, to nearest with ties to even: 53 significant
  binary digits, exponents from -1022 (below it the spacing stays 2^-1074), overflow to
  an infinity from 2^1024 on.
\<close>

definition roundFloat64 :: "real \<Rightarrow> float64" where
  "roundFloat64 x =
     (if x = 0 then Finite 0
      else
        (let ulp = pow2 (max (expo \<bar>x\<bar>) (- 1022) - 52);
             y = of_int (roundHalfEven (\<bar>x\<bar> / ulp)) * ulp
         in if 2 ^ 1024 \<le> y then (if 0 < x then PosInf else NegInf)
            else Finite (if 0 < x then y else - y)))"

text \<open>The conversion float64(i) of an integer.\<close>

definition float64_of_int :: "int \<Rightarrow> float64" where
  "float64_of_int i = roundFloat64 (of_int i)"

text \<open>The product x * y.\<close>

fun fmul :: "float64 \<Rightarrow> float64 \<Rightarrow> float64" where
  "fmul NaN y = NaN"
| "fmul x NaN = NaN"
| "fmul (Finite x) (Finite y) = roundFloat64 (x * y)"
| "fmul (Finite x) PosInf = (if x = 0 then NaN else if 0 < x then PosInf else NegInf)"
| "fmul (Finite x) NegInf = (if x = 0 then NaN else if 0 < x then NegInf else PosInf)"
| "fmul PosInf (Finite y) = (if y = 0 then NaN else if 0 < y then PosInf else NegInf)"
| "fmul NegInf (Finite y) = (if y = 0 then NaN else if 0 < y then NegInf else PosInf)"
| "fmul PosInf PosInf = PosInf"
| "fmul PosInf NegInf = NegInf"
| "fmul NegInf PosInf = NegInf"
| "fmul NegInf NegInf = PosInf"

text \<open>The quotient x / y; a divisor 0 is +0.\<close>

fun fdiv :: "float64 \<Rightarrow> float64 \<Rightarrow> float64" where
  "fdiv NaN y = NaN"
| "fdiv x NaN = NaN"
| "fdiv (Finite x) (Finite y) =
     (if y = 0 then (if x = 0 then NaN else if 0 < x then PosInf else NegInf)
      else roundFloat64 (x / y))"
| "fdiv (Finite x) PosInf = Finite 0"
| "fdiv (Finite x) NegInf = Finite 0"
| "fdiv PosInf (Finite y) = (if 0 \<le> y then PosInf else NegInf)"
| "fdiv NegInf (Finite y) = (if 0 \<le> y then NegInf else PosInf)"
| "fdiv PosInf PosInf = NaN"
| "fdiv PosInf NegInf = NaN"
| "fdiv NegInf PosInf = NaN"
| "fdiv NegInf NegInf = NaN"

text \<open>The comparison x >= 1.0.\<close>

fun geOne :: "float64 \<Rightarrow> bool" where
  "geOne (Finite x) = (1 \<le> x)"
| "geOne PosInf = True"
| "geOne NegInf = False"
| "geOne NaN = False"

record Message =
  Header_Length :: "32 word"
  Header_Type :: "16 word"
  Header_Flags :: "16 word"
  Header_Sequence :: "32 word"
  Header_PID :: "32 word"
  Data :: "byte list"

record Event =
  msgs :: "Message list"
  netns :: "32 word"
  buffer :: nat
  pool :: nat

datatype sampler = GenerateBPFSampler float64

datatype sockopt = SO_RCVBUFFORCE | NETLINK_LISTEN_ALL_NSID

datatype effect =
    RootNS_NewSocket
  | SetSockoptInt Socket sockopt int
  | SetBPF Socket sampler
  | Conn_Close Conn
  | Conn_JoinGroup Conn "32 word"
  | Conn_Send Conn Message
  | Conn_Receive Conn
  | Breaker_Tick int
  | Breaker_Reset
  | Pool_Get nat
  | Socket_ReceiveInto nat
  | Output Event

text \<open>A call either returns a value or panics (nil dereference, index out of range).\<close>

datatype 'a outcome = Returns 'a | Panics

record Consumer =
  conn :: "Conn option"
  socket :: "Socket option"
  cpool :: nat
  targetRateLimit :: int
  samplingRate :: float64
  streaming :: bool
  enobufs :: int64
  throttles :: int64
  samplingPct :: int64
  readErrors :: int64
  msgErrors :: int64
  netlinkSeqNumber :: "32 word"
  listenAllNamespaces :: bool
  recvLoopRunning :: "32 word"

subsection \<open>Constants\<close>

definition netlinkCtNew :: "32 word" where
  "netlinkCtNew = 1"

text \<open>The constant 0.95, converted to float64 where it is used.\<close>

definition overshootFactor :: float64 where
  "overshootFactor = roundFloat64 (95 / 100)"

definition netlinkBufferSize :: int where
  "netlinkBufferSize = 1024 * 1024"

text \<open>Header types and attribute types of the netlink protocol (linux/netlink.h, net_namespace.h, rtnetlink.h).\<close>

definition netlink_Error :: "16 word" where
  "netlink_Error = 2"

definition netlink_Done :: "16 word" where
  "netlink_Done = 3"

definition netlink_Request :: "16 word" where
  "netlink_Request = 1"

definition RTM_GETNSID :: "16 word" where
  "RTM_GETNSID = 90"

definition NETNSA_NSID :: "16 word" where
  "NETNSA_NSID = 1"

definition AF_UNSPEC :: byte where
  "AF_UNSPEC = 0"

subsection \<open>Classification of receive errors\<close>

text \<open>strings.Contains: the second string occurs in the first as a contiguous block.\<close>

fun Contains :: "string \<Rightarrow> string \<Rightarrow> bool" where
  "Contains [] sub = (sub = [])"
| "Contains (c # s) sub = (take (length sub) (c # s) = sub \<or> Contains s sub)"

text \<open>
  errEOF and errENOBUF are sentinels private to the file; socketError returns one of
  them or the error it was given.
\<close>

datatype socket_error = errEOF | errENOBUF | other error

definition socketError :: "error \<Rightarrow> socket_error" where
  "socketError err =
     (if Contains err ''closed file'' then errEOF
      else if Contains err ''no buffer space'' then errENOBUF
      else other err)"

subsection \<open>Socket initialisation\<close>

text \<open>
  The conversion int64(x) of a float64: truncation towards zero. For NaN, an infinity
  and a value outside the range of int64 the language leaves the result to the
  implementation; the model takes it from the platform (its first argument).
\<close>

definition truncToZero :: "real \<Rightarrow> int" where
  "truncToZero x = (if 0 \<le> x then \<lfloor>x\<rfloor> else \<lceil>x\<rceil>)"

definition int64_of_float64 :: "(float64 \<Rightarrow> int64) \<Rightarrow> float64 \<Rightarrow> int64" where
  "int64_of_float64 platform f =
     (case f of
        Finite x \<Rightarrow>
          (if - (2 ^ 63) \<le> truncToZero x \<and> truncToZero x < 2 ^ 63
           then word_of_int (truncToZero x) else platform f)
      | PosInf \<Rightarrow> platform f
      | NegInf \<Rightarrow> platform f
      | NaN \<Rightarrow> platform f)"

text \<open>
  What WithRootNS with NewSocket answers: the root namespace could not be entered (the
  closure never ran), NewSocket failed (the socket it returned beside the error is
  stored), or a socket was opened. The world of an initialisation also holds the answer
  of SetBPF and the platform's conversion of a float64 that int64 cannot hold.
\<close>

datatype root_ns_result =
    EnterFailed error
  | SocketFailed "Socket option" error
  | SocketOk Socket

record init_world =
  newSocket :: root_ns_result
  setBPF :: "error option"
  int64Platform :: "float64 \<Rightarrow> int64"

definition initNetlinkSocket ::
  "init_world \<Rightarrow> Consumer \<Rightarrow> float64 \<Rightarrow> error option \<times> Consumer \<times> effect list" where
  "initNetlinkSocket w c rate =
     (case newSocket w of
        EnterFailed e \<Rightarrow> (Some e, c, [RootNS_NewSocket])
      | SocketFailed s e \<Rightarrow> (Some e, c\<lparr>socket := s\<rparr>, [RootNS_NewSocket])
      | SocketOk s \<Rightarrow>
          (let c1 = c\<lparr>socket := Some s, conn := Some (NewConn s)\<rparr>;
               effs = [RootNS_NewSocket, SetSockoptInt s SO_RCVBUFFORCE netlinkBufferSize]
                      @ (if listenAllNamespaces c1
                         then [SetSockoptInt s NETLINK_LISTEN_ALL_NSID 1] else []);
               c2 = c1\<lparr>samplingRate := rate\<rparr>;
               c3 = c2\<lparr>samplingPct :=
                         int64_of_float64 (int64Platform w) (fmul rate (Finite 100))\<rparr>
           in if geOne (samplingRate c3) then (None, c3, effs)
              else (case setBPF w of
                      Some e \<Rightarrow>
                        (Some (''failed to attach BPF filter: '' @ e),
                         c3\<lparr>samplingPct := 0\<rparr>,
                         effs @ [SetBPF s (GenerateBPFSampler (samplingRate c3))])
                    | None \<Rightarrow>
                        (None, c3,
                         effs @ [SetBPF s (GenerateBPFSampler (samplingRate c3))]))))"

subsection \<open>Throttling\<close>

text \<open>
  What the breaker and the sockets answer during one call of throttle: IsOpen and Rate
  after the Tick, the answers to the re-initialisation, and the result of JoinGroup.
  The new sampling rate is computed in float64, from left to right. Closing a
  connection that is nil panics.
\<close>

record throttle_world =
  isOpen :: bool
  rate :: int
  init :: init_world
  joinGroup :: "error option"

definition throttle ::
  "bool \<Rightarrow> throttle_world \<Rightarrow> Consumer \<Rightarrow> int
     \<Rightarrow> error option outcome \<times> Consumer \<times> effect list" where
  "throttle pre315Kernel w c numMessages =
     (if \<not> streaming c then (Returns None, c, [])
      else if \<not> isOpen w then (Returns None, c, [Breaker_Tick numMessages])
      else
        (let c1 = c\<lparr>throttles := throttles c + 1\<rparr> in
         if pre315Kernel
         then (Returns None, c1, [Breaker_Tick numMessages, Breaker_Reset])
         else
           (case conn c1 of
              None \<Rightarrow> (Panics, c1, [Breaker_Tick numMessages])
            | Some cn \<Rightarrow>
                (let c2 = c1\<lparr>conn := None\<rparr>;
                     newRate = fmul (fmul (fdiv (float64_of_int (targetRateLimit c2))
                                                (float64_of_int (rate w)))
                                          (samplingRate c2))
                                    overshootFactor;
                     (err, c3, effs) = initNetlinkSocket (init w) c2 newRate
                 in case err of
                      Some e \<Rightarrow>
                        (Returns (Some e), c3,
                         [Breaker_Tick numMessages, Conn_Close cn] @ effs)
                    | None \<Rightarrow>
                        (case conn c3 of
                           None \<Rightarrow>
                             (Panics, c3,
                              [Breaker_Tick numMessages, Conn_Close cn] @ effs
                              @ [Breaker_Reset])
                         | Some cn' \<Rightarrow>
                             (Returns (joinGroup w), c3,
                              [Breaker_Tick numMessages, Conn_Close cn] @ effs
                              @ [Breaker_Reset, Conn_JoinGroup cn' netlinkCtNew]))))))"

subsection \<open>The receive loop\<close>

text \<open>
  What one pass through the loop is given: the buffer handed out by the pool, the three
  results of ReceiveInto, and the answers to the call of throttle.
\<close>

record recv_world =
  poolGet :: nat
  recvMsgs :: "Message list"
  recvNetns :: "32 word"
  recvErr :: "error option"
  thr :: throttle_world

datatype status = Continue | Return | Panicked

definition eventFor :: "Consumer \<Rightarrow> Message list \<Rightarrow> 32 word \<Rightarrow> nat \<Rightarrow> Event" where
  "eventFor c ms ns b = \<lparr>msgs = ms, netns = ns, buffer = b, pool = cpool c\<rparr>"

text \<open>
  The walk over the messages: True when checkMessage (a parameter: it is not part of
  the embedded file) accepts every message, False at the first one it rejects.
\<close>

fun checkAll :: "(Message \<Rightarrow> error option) \<Rightarrow> Message list \<Rightarrow> bool" where
  "checkAll checkMessage [] = True"
| "checkAll checkMessage (m # ms) =
     (case checkMessage m of Some e \<Rightarrow> False | None \<Rightarrow> checkAll checkMessage ms)"

definition multiPartDone :: "Message list \<Rightarrow> bool" where
  "multiPartDone ms = (length ms > 0 \<and> Header_Type (last ms) = netlink_Done)"

text \<open>The loop body from the call of throttle to its end.\<close>

definition afterReceive ::
  "bool \<Rightarrow> (Message \<Rightarrow> error option) \<Rightarrow> recv_world \<Rightarrow> Consumer
     \<Rightarrow> status \<times> Consumer \<times> effect list" where
  "afterReceive pre315Kernel checkMessage w c =
     (case throttle pre315Kernel (thr w) c (int (length (recvMsgs w))) of
        (Panics, c', effs) \<Rightarrow> (Panicked, c', effs)
      | (Returns (Some e), c', effs) \<Rightarrow> (Return, c', effs)
      | (Returns None, c', effs) \<Rightarrow>
          (if \<not> checkAll checkMessage (recvMsgs w)
           then (Continue, c'\<lparr>msgErrors := msgErrors c' + 1\<rparr>, effs)
           else
             (let done = multiPartDone (recvMsgs w);
                  ms = (if done then butlast (recvMsgs w) else recvMsgs w);
                  effs' = effs @ [Output (eventFor c' ms (recvNetns w) (poolGet w))]
              in if done \<and> \<not> streaming c' then (Return, c', effs')
                 else (Continue, c', effs'))))"

text \<open>
  The switch on the error of ReceiveInto: None when the loop returns (EOF), otherwise
  the consumer with which the pass goes on.
\<close>

definition classify :: "recv_world \<Rightarrow> Consumer \<Rightarrow> Consumer option" where
  "classify w c =
     (case recvErr w of
        None \<Rightarrow> Some c
      | Some err \<Rightarrow>
          (case socketError err of
             errEOF \<Rightarrow> None
           | errENOBUF \<Rightarrow> Some (c\<lparr>enobufs := enobufs c + 1\<rparr>)
           | other e \<Rightarrow> Some (c\<lparr>readErrors := readErrors c + 1\<rparr>)))"

text \<open>The whole loop body: one pass through ReadLoop.\<close>

definition iteration ::
  "bool \<Rightarrow> (Message \<Rightarrow> error option) \<Rightarrow> recv_world \<Rightarrow> Consumer
     \<Rightarrow> status \<times> Consumer \<times> effect list" where
  "iteration pre315Kernel checkMessage w c =
     (let effs0 = [Pool_Get (poolGet w), Socket_ReceiveInto (poolGet w)] in
      case classify w c of
        None \<Rightarrow> (Return, c, effs0)
      | Some c1 \<Rightarrow>
          (case afterReceive pre315Kernel checkMessage w c1 of
             (st, c', effs) \<Rightarrow> (st, c', effs0 @ effs)))"

text \<open>
  The loop over the answers of the world, one per pass. When the answers are used up the
  loop has not returned: it waits in ReceiveInto (status Continue).
\<close>

fun ReadLoop ::
  "bool \<Rightarrow> (Message \<Rightarrow> error option) \<Rightarrow> recv_world list \<Rightarrow> Consumer
     \<Rightarrow> status \<times> Consumer \<times> effect list" where
  "ReadLoop pre315Kernel checkMessage [] c = (Continue, c, [])"
| "ReadLoop pre315Kernel checkMessage (w # ws) c =
     (case iteration pre315Kernel checkMessage w c of
        (Continue, c', effs) \<Rightarrow>
          (case ReadLoop pre315Kernel checkMessage ws c' of
             (st, c'', effs') \<Rightarrow> (st, c'', effs @ effs'))
      | (Return, c', effs) \<Rightarrow> (Return, c', effs)
      | (Panicked, c', effs) \<Rightarrow> (Panicked, c', effs))"

text \<open>receive raises its flag, runs the loop and lowers the flag on every way out.\<close>

definition receive ::
  "bool \<Rightarrow> (Message \<Rightarrow> error option) \<Rightarrow> recv_world list \<Rightarrow> Consumer
     \<Rightarrow> status \<times> Consumer \<times> effect list" where
  "receive pre315Kernel checkMessage ws c =
     (case ReadLoop pre315Kernel checkMessage ws (c\<lparr>recvLoopRunning := 1\<rparr>) of
        (Continue, c', effs) \<Rightarrow> (Continue, c', effs)
      | (st, c', effs) \<Rightarrow> (st, c'\<lparr>recvLoopRunning := 0\<rparr>, effs))"

text \<open>The events a trace puts on the output queue, in order.\<close>

fun outputs :: "effect list \<Rightarrow> Event list" where
  "outputs [] = []"
| "outputs (Output e # effs) = e # outputs effs"
| "outputs (x # effs) = outputs effs"

subsection \<open>The peer-namespace query\<close>

text \<open>
  The attribute decoder of the netlink library is seen through the positions it
  visits: the position it is at before the first call of Next, then one per successful
  call of Next. At each position Type and Uint32 answer.
\<close>

record Attribute =
  Type :: "16 word"
  Uint32 :: "32 word"

record peer_world =
  encode :: "32 word \<Rightarrow> error + byte list"
  send :: "error + Message"
  receiveReply :: "error + Message list"
  newAttributeDecoder :: "byte list \<Rightarrow> error + Attribute \<times> Attribute list"

text \<open>The scan for the namespace id: stop at the first position of type NETNSA_NSID.\<close>

fun scanNSID :: "Attribute \<Rightarrow> Attribute list \<Rightarrow> bool" where
  "scanNSID a rest =
     (if Type a = NETNSA_NSID then 0 \<le> sint (Uint32 a)
      else (case rest of [] \<Rightarrow> False | b # bs \<Rightarrow> scanNSID b bs))"

definition isPeerNS ::
  "peer_world \<Rightarrow> Conn \<Rightarrow> int \<Rightarrow> Consumer \<Rightarrow> bool outcome \<times> Consumer \<times> effect list" where
  "isPeerNS w cn ns c =
     (case encode w (word_of_int ns) of
        Inl e \<Rightarrow> (Returns False, c, [])
      | Inr data \<Rightarrow>
          (let msg = \<lparr>Header_Length = 0, Header_Type = RTM_GETNSID,
                      Header_Flags = netlink_Request,
                      Header_Sequence = netlinkSeqNumber c, Header_PID = 0,
                      Data = [AF_UNSPEC, 0, 0, 0] @ data\<rparr>
           in case send w of
                Inl e \<Rightarrow> (Returns False, c, [Conn_Send cn msg])
              | Inr echo \<Rightarrow>
                  (case receiveReply w of
                     Inl e \<Rightarrow> (Returns False, c, [Conn_Send cn msg, Conn_Receive cn])
                   | Inr [] \<Rightarrow> (Panics, c, [Conn_Send cn msg, Conn_Receive cn])
                   | Inr (m0 # ms) \<Rightarrow>
                       (if Header_Type m0 = netlink_Error
                        then (Returns False, c, [Conn_Send cn msg, Conn_Receive cn])
                        else
                          (let c' = c\<lparr>netlinkSeqNumber := netlinkSeqNumber c + 1\<rparr> in
                           case newAttributeDecoder w (Data m0) of
                             Inl e \<Rightarrow>
                               (Returns False, c', [Conn_Send cn msg, Conn_Receive cn])
                           | Inr (a, rest) \<Rightarrow>
                               (Returns (scanNSID a rest), c',
                                [Conn_Send cn msg, Conn_Receive cn]))))))"

text \<open>NewConsumer: the fields a fresh consumer starts with.\<close>

definition NewConsumer :: "nat \<Rightarrow> int \<Rightarrow> bool \<Rightarrow> Consumer" where
  "NewConsumer p limit listenAll =
     \<lparr>conn = None, socket = None, cpool = p, targetRateLimit = limit,
      samplingRate = Finite 0,
      streaming = False, enobufs = 0, throttles = 0, samplingPct = 0, readErrors = 0,
      msgErrors = 0, netlinkSeqNumber = 1, listenAllNamespaces = listenAll,
      recvLoopRunning = 0\<rparr>"

text \<open>
  Events up to the start of the receive loop: open the streaming socket at sampling
  rate 1, switch to streaming and join the multicast group (whose result is dropped).
  An initialisation without error always leaves a connection to join with.
\<close>

definition Events :: "init_world \<Rightarrow> Consumer \<Rightarrow> error option \<times> Consumer \<times> effect list" where
  "Events w c =
     (case initNetlinkSocket w c (Finite 1) of
        (Some e, c', effs) \<Rightarrow>
          (Some (''could not initialize conntrack netlink socket: '' @ e), c', effs)
      | (None, c', effs) \<Rightarrow>
          (case conn c' of
             None \<Rightarrow> (None, c'\<lparr>streaming := True\<rparr>, effs)
           | Some cn \<Rightarrow>
               (None, c'\<lparr>streaming := True\<rparr>, effs @ [Conn_JoinGroup cn netlinkCtNew])))"

subsection \<open>Sample states and answers\<close>

text \<open>
  A consumer with a target of 100 messages per second: fresh (the state of a dump), and
  as Events leaves it after opening socket 0 (the state of streaming).
\<close>

definition dumpConsumer :: Consumer where
  "dumpConsumer = (NewConsumer 0 100 False)\<lparr>socket := Some 5\<rparr>"

text \<open>The conversion of amd64 gives the smallest int64 for what int64 cannot hold.\<close>

definition amd64 :: "float64 \<Rightarrow> int64" where
  "amd64 f = - 9223372036854775808"

definition opens :: "Socket \<Rightarrow> error option \<Rightarrow> init_world" where
  "opens s bpf = \<lparr>newSocket = SocketOk s, setBPF = bpf, int64Platform = amd64\<rparr>"

definition streamingConsumer :: Consumer where
  "streamingConsumer =
     \<lparr>conn = Some (NewConn 0), socket = Some 0, cpool = 0, targetRateLimit = 100,
      samplingRate = Finite 1, streaming = True, enobufs = 0, throttles = 0,
      samplingPct = 100, readErrors = 0, msgErrors = 0, netlinkSeqNumber = 1,
      listenAllNamespaces = False, recvLoopRunning = 0\<rparr>"

text \<open>A breaker that has tripped at 200 messages per second; socket 1 opens without error.\<close>

definition tripped :: throttle_world where
  "tripped = \<lparr>isOpen = True, rate = 200, init = opens 1 None, joinGroup = None\<rparr>"

text \<open>The same trip when no new socket can be opened.\<close>

definition trippedNoSocket :: throttle_world where
  "trippedNoSocket = \<lparr>isOpen = True, rate = 200,
              init = \<lparr>newSocket = SocketFailed None ''too many open files'', setBPF = None,
                      int64Platform = amd64\<rparr>,
              joinGroup = None\<rparr>"

text \<open>The same trip when the root namespace cannot be entered.\<close>

definition trippedNoRootNS :: throttle_world where
  "trippedNoRootNS = \<lparr>isOpen = True, rate = 200,
              init = \<lparr>newSocket = EnterFailed ''operation not permitted'', setBPF = None,
                      int64Platform = amd64\<rparr>,
              joinGroup = None\<rparr>"

text \<open>A breaker that is closed at 10 messages per second.\<close>

definition quiet :: throttle_world where
  "quiet = \<lparr>isOpen = False, rate = 10, init = opens 1 None, joinGroup = None\<rparr>"

text \<open>A data message, the end of a multi-part reply, and an error frame.\<close>

definition dataMsg :: Message where
  "dataMsg = \<lparr>Header_Length = 20, Header_Type = 256, Header_Flags = 2, Header_Sequence = 0,
              Header_PID = 0, Data = [2, 0, 0, 0]\<rparr>"

definition doneMsg :: Message where
  "doneMsg = \<lparr>Header_Length = 16, Header_Type = netlink_Done, Header_Flags = 2,
              Header_Sequence = 0, Header_PID = 0, Data = []\<rparr>"

definition errorMsg :: Message where
  "errorMsg = \<lparr>Header_Length = 20, Header_Type = netlink_Error, Header_Flags = 0,
               Header_Sequence = 0, Header_PID = 0, Data = [255, 255, 255, 255]\<rparr>"

text \<open>A validation that rejects exactly the error frames.\<close>

definition rejectErrors :: "Message \<Rightarrow> error option" where
  "rejectErrors m = (if Header_Type m = netlink_Error then Some ''netlink error'' else None)"

definition batch :: "Message list \<Rightarrow> error option \<Rightarrow> throttle_world \<Rightarrow> recv_world" where
  "batch ms err tw = \<lparr>poolGet = 9, recvMsgs = ms, recvNetns = 0, recvErr = err, thr = tw\<rparr>"

text \<open>
  Answers to a peer-namespace query: a reply that carries the namespace id v, an error
  frame, an empty reply, and a failed receive.
\<close>

definition replyMsg :: "16 word \<Rightarrow> Message" where
  "replyMsg t = \<lparr>Header_Length = 28, Header_Type = t, Header_Flags = 0, Header_Sequence = 1,
                 Header_PID = 0, Data = [0, 0, 0, 0, 8, 0, 1, 0, 0, 0, 0, 0]\<rparr>"

definition peerAnswers :: "error + Message list \<Rightarrow> 32 word \<Rightarrow> peer_world" where
  "peerAnswers reply v =
     \<lparr>encode = (\<lambda>fd. Inr [8, 0, 3, 0, 7, 0, 0, 0]),
      send = Inr (replyMsg RTM_GETNSID),
      receiveReply = reply,
      newAttributeDecoder =
        (\<lambda>d. Inr (\<lparr>Type = 0, Uint32 = 0\<rparr>,
                   [\<lparr>Type = 0, Uint32 = 0\<rparr>, \<lparr>Type = NETNSA_NSID, Uint32 = v\<rparr>]))\<rparr>"

section \<open>Properties\<close>

subsection \<open>Auxiliary facts\<close>

lemmas sample_defs = streamingConsumer_def dumpConsumer_def NewConsumer_def
  tripped_def trippedNoSocket_def quiet_def opens_def dataMsg_def doneMsg_def errorMsg_def
  rejectErrors_def batch_def netlink_Done_def netlink_Error_def initNetlinkSocket_def
  Let_def

lemmas float_defs = roundFloat64_def float64_of_int_def expo_def pow2_def roundHalfEven_def
  bitlen.simps overshootFactor_def int64_of_float64_def truncToZero_def amd64_def

lemmas peer_defs = dumpConsumer_def NewConsumer_def replyMsg_def peerAnswers_def
  netlink_Error_def NETNSA_NSID_def RTM_GETNSID_def Let_def

lemma outputs_append: "outputs (xs @ ys) = outputs xs @ outputs ys"
  by (induction xs rule: outputs.induct) simp_all

lemma checkAll_iff: "checkAll chk ms \<longleftrightarrow> (\<forall>m \<in> set ms. chk m = None)"
  by (induction ms) (auto split: option.splits)

lemma initNetlinkSocket_outputs:
  "outputs (snd (snd (initNetlinkSocket w c r))) = []"
  by (simp add: initNetlinkSocket_def Let_def split: root_ns_result.splits option.splits)

lemma initNetlinkSocket_keeps:
  "initNetlinkSocket w c r = (err, c', effs) \<Longrightarrow>
     streaming c' = streaming c \<and> msgErrors c' = msgErrors c \<and> enobufs c' = enobufs c
     \<and> readErrors c' = readErrors c \<and> throttles c' = throttles c \<and> cpool c' = cpool c
     \<and> netlinkSeqNumber c' = netlinkSeqNumber c \<and> targetRateLimit c' = targetRateLimit c"
  by (auto simp add: initNetlinkSocket_def Let_def split: root_ns_result.splits option.splits if_splits)

lemma initNetlinkSocket_conn:
  "initNetlinkSocket w c r = (None, c', effs) \<Longrightarrow> \<exists>s. conn c' = Some (NewConn s) \<and> newSocket w = SocketOk s"
  by (auto simp add: initNetlinkSocket_def Let_def split: root_ns_result.splits option.splits if_splits)

lemma throttle_outputs:
  "outputs (snd (snd (throttle p w c n))) = []"
proof -
  obtain err c3 effs where i: "initNetlinkSocket (init w) (c\<lparr>throttles := throttles c + 1, conn := None\<rparr>) 
      (fmul (fmul (fdiv (float64_of_int (targetRateLimit c)) (float64_of_int (rate w)))
         (samplingRate c)) overshootFactor) = (err, c3, effs)"
    by (cases "initNetlinkSocket (init w) (c\<lparr>throttles := throttles c + 1, conn := None\<rparr>) 
      (fmul (fmul (fdiv (float64_of_int (targetRateLimit c)) (float64_of_int (rate w)))
         (samplingRate c)) overshootFactor)") auto
  have "outputs effs = []" using initNetlinkSocket_outputs[of "init w" "c\<lparr>throttles := throttles c + 1, conn := None\<rparr>"] i
    by (metis snd_conv)
  then show ?thesis using i
    by (simp add: throttle_def Let_def outputs_append split: option.splits)
qed

lemma throttle_keeps:
  "throttle p w c n = (r, c', effs) \<Longrightarrow>
     streaming c' = streaming c \<and> msgErrors c' = msgErrors c \<and> enobufs c' = enobufs c
     \<and> readErrors c' = readErrors c \<and> cpool c' = cpool c
     \<and> netlinkSeqNumber c' = netlinkSeqNumber c \<and> targetRateLimit c' = targetRateLimit c"
proof -
  assume t: "throttle p w c n = (r, c', effs)"
  obtain err c3 effs3 where i: "initNetlinkSocket (init w) (c\<lparr>throttles := throttles c + 1, conn := None\<rparr>) 
      (fmul (fmul (fdiv (float64_of_int (targetRateLimit c)) (float64_of_int (rate w)))
         (samplingRate c)) overshootFactor) = (err, c3, effs3)"
    by (cases "initNetlinkSocket (init w) (c\<lparr>throttles := throttles c + 1, conn := None\<rparr>) 
      (fmul (fmul (fdiv (float64_of_int (targetRateLimit c)) (float64_of_int (rate w)))
         (samplingRate c)) overshootFactor)") auto
  note k = initNetlinkSocket_keeps[OF i]
  show ?thesis using t i k
    by (auto simp add: throttle_def Let_def split: option.splits if_splits)
qed

lemma classify_keeps:
  "classify w c = Some c1 \<Longrightarrow>
     streaming c1 = streaming c \<and> msgErrors c1 = msgErrors c \<and> cpool c1 = cpool c
     \<and> conn c1 = conn c \<and> socket c1 = socket c"
  by (auto simp add: classify_def split: option.splits socket_error.splits)

lemma afterReceive_valid:
  assumes "throttle p (thr w) c1 (int (length (recvMsgs w))) = (Returns None, c2, effs)"
    and "checkAll chk (recvMsgs w)"
  shows "afterReceive p chk w c1 =
           (if multiPartDone (recvMsgs w) \<and> \<not> streaming c2 then Return else Continue, c2,
            effs @ [Output (eventFor c2
                      (if multiPartDone (recvMsgs w) then butlast (recvMsgs w) else recvMsgs w)
                      (recvNetns w) (poolGet w))])"
  using assms by (simp add: afterReceive_def Let_def)

lemma afterReceive_invalid:
  assumes "throttle p (thr w) c1 (int (length (recvMsgs w))) = (Returns None, c2, effs)"
    and "\<not> checkAll chk (recvMsgs w)"
  shows "afterReceive p chk w c1 = (Continue, c2\<lparr>msgErrors := msgErrors c2 + 1\<rparr>, effs)"
  using assms by (simp add: afterReceive_def Let_def)

lemma iteration_Some:
  "classify w c = Some c1 \<Longrightarrow> afterReceive p chk w c1 = (st, c', effs) \<Longrightarrow>
     iteration p chk w c = (st, c', [Pool_Get (poolGet w), Socket_ReceiveInto (poolGet w)] @ effs)"
  by (simp add: iteration_def Let_def)

lemma afterReceive_recvErr:
  "afterReceive p chk (w\<lparr>recvErr := x\<rparr>) c = afterReceive p chk w c"
  by (simp add: afterReceive_def Let_def split: prod.splits outcome.splits option.splits)

lemma afterReceive_keeps:
  "afterReceive p chk w c = (st, c', effs) \<Longrightarrow>
     enobufs c' = enobufs c \<and> readErrors c' = readErrors c"
proof -
  assume a: "afterReceive p chk w c = (st, c', effs)"
  obtain r c2 effs2 where t: "throttle p (thr w) c (int (length (recvMsgs w))) = (r, c2, effs2)"
    by (cases "throttle p (thr w) c (int (length (recvMsgs w)))") auto
  show ?thesis
    using a t throttle_keeps [OF t]
    by (auto simp add: afterReceive_def Let_def split: outcome.splits option.splits if_splits)
qed

lemma iteration_keeps:
  "classify w c = Some c1 \<Longrightarrow>
     enobufs (fst (snd (iteration p chk w c))) = enobufs c1
     \<and> readErrors (fst (snd (iteration p chk w c))) = readErrors c1"
proof -
  assume cl: "classify w c = Some c1"
  obtain st c' effs where a: "afterReceive p chk w c1 = (st, c', effs)"
    by (cases "afterReceive p chk w c1") auto
  show ?thesis
    using iteration_Some [OF cl a] afterReceive_keeps [OF a] by simp
qed

lemma scanNSID_find:
  "scanNSID a rest =
     (case find (\<lambda>x. Type x = NETNSA_NSID) (a # rest) of
        None \<Rightarrow> False | Some x \<Rightarrow> 0 \<le> sint (Uint32 x))"
  by (induction rest arbitrary: a) simp_all

lemma word_inc:
  fixes x :: "32 word"
  assumes "x \<noteq> - 1"
  shows "x < x + 1 \<and> unat (x + 1) = unat x + 1"
proof -
  have "\<not> x + 1 \<le> x"
    using assms by (simp add: inc_less_eq_self_iff_eq)
  then have l: "x < x + 1"
    by simp
  have "1 + x \<noteq> 0"
    using assms by (simp add: add_eq_0_iff)
  then have "unat (1 + x) = Suc (unat x)"
    by (rule unatSuc)
  with l show ?thesis
    by (simp add: add.commute)
qed

text \<open>
  A streaming consumer has a connection: Events leaves one, and every pass through the
  loop after which the loop goes on keeps one.
\<close>

lemma Events_conn:
  "Events w c = (None, c', effs) \<Longrightarrow> streaming c' \<and> conn c' \<noteq> None"
  by (auto simp add: Events_def initNetlinkSocket_def Let_def
      split: root_ns_result.splits option.splits if_splits prod.splits)

lemma throttle_conn:
  assumes "streaming c \<longrightarrow> conn c \<noteq> None"
    and "throttle p w c n = (Returns None, c', effs)"
  shows "streaming c' \<longrightarrow> conn c' \<noteq> None"
proof -
  obtain err c3 effs3 where i: "initNetlinkSocket (init w) (c\<lparr>throttles := throttles c + 1, conn := None\<rparr>)
      (fmul (fmul (fdiv (float64_of_int (targetRateLimit c)) (float64_of_int (rate w)))
         (samplingRate c)) overshootFactor) = (err, c3, effs3)"
    by (cases "initNetlinkSocket (init w) (c\<lparr>throttles := throttles c + 1, conn := None\<rparr>)
      (fmul (fmul (fdiv (float64_of_int (targetRateLimit c)) (float64_of_int (rate w)))
         (samplingRate c)) overshootFactor)") auto
  show ?thesis
    using assms i
    by (auto simp add: throttle_def Let_def split: option.splits if_splits)
qed

lemma iteration_conn:
  assumes "streaming c \<longrightarrow> conn c \<noteq> None"
    and "iteration p chk w c = (Continue, c', effs)"
  shows "streaming c' \<longrightarrow> conn c' \<noteq> None"
proof -
  obtain c1 where cl: "classify w c = Some c1"
    using assms(2) by (cases "classify w c") (auto simp add: iteration_def Let_def)
  have i1: "streaming c1 \<longrightarrow> conn c1 \<noteq> None"
    using classify_keeps [OF cl] assms(1) by simp
  obtain r c2 effs2 where t: "throttle p (thr w) c1 (int (length (recvMsgs w))) = (r, c2, effs2)"
    by (cases "throttle p (thr w) c1 (int (length (recvMsgs w)))") auto
  have "r = Returns None \<and> (c' = c2 \<or> c' = c2\<lparr>msgErrors := msgErrors c2 + 1\<rparr>)"
    using assms(2) cl t
    by (auto simp add: iteration_def afterReceive_def Let_def
        split: outcome.splits option.splits if_splits)
  then show ?thesis
    using throttle_conn [OF i1] t by auto
qed

lemmas loop_defs = iteration_def classify_def afterReceive_def throttle_def socketError_def
  multiPartDone_def eventFor_def netlinkCtNew_def

subsection \<open>float64 arithmetic\<close>

















lemma sint_int64_in_range:
  "- (2 ^ 63) \<le> i \<Longrightarrow> i < 2 ^ 63 \<Longrightarrow> sint (word_of_int i :: 64 word) = i"
  by (simp add: sint_sbintrunc' signed_take_bit_int_eq_self)

text \<open>
  The streaming sample consumer is the one Events leaves from a fresh consumer when
  socket 0 opens.
\<close>

lemma Events_streamingConsumer:
  "Events (opens 0 None) (NewConsumer 0 100 False)
     = (None, streamingConsumer,
        [RootNS_NewSocket, SetSockoptInt 0 SO_RCVBUFFORCE 1048576, Conn_JoinGroup (NewConn 0) 1])"
  by (simp add: Events_def sample_defs float_defs netlinkBufferSize_def netlinkCtNew_def)

lemmas trip_defs = sample_defs float_defs throttle_def netlinkBufferSize_def netlinkCtNew_def
  trippedNoRootNS_def

text \<open>
  Values of the model at inputs where the rounding shows: ties go to the even neighbour,
  results from 2^1024 on are infinite and the spacing below 2^-1022 stays 2^-1074. With
  target 100 and sampling rate 1, an observed rate of 190 gives the float64 below 1/2 and
  the percentage 49, an observed rate of 95 a rate below 1 with a filter attached, and an
  observed rate of 0 the rate +Inf with no filter.
\<close>

lemma float64_of_int_samples:
  "float64_of_int 9007199254740993 = Finite 9007199254740992
   \<and> float64_of_int 9007199254740995 = Finite 9007199254740996
   \<and> float64_of_int (- 9007199254740995) = Finite (- 9007199254740996)
   \<and> float64_of_int 100 = Finite 100
   \<and> float64_of_int 0 = Finite 0"
  by (simp add: float_defs)

lemma roundFloat64_samples:
  "roundFloat64 (35 / 100) = Finite (3152519739159347 / 9007199254740992)
   \<and> roundFloat64 (1 / 10) = Finite (3602879701896397 / 36028797018963968)
   \<and> roundFloat64 (2 ^ 1024) = PosInf
   \<and> roundFloat64 (- (2 ^ 1024)) = NegInf
   \<and> roundFloat64 (3 / 2 ^ 1075) = Finite (1 / 2 ^ 1073)
   \<and> roundFloat64 (1 / 2 ^ 1075) = Finite 0"
  by (simp add: float_defs)

lemma throttle_samples:
  "samplingRate (fst (snd (throttle False (tripped\<lparr>rate := 190\<rparr>) streamingConsumer 20)))
     = Finite (9007199254740991 / 18014398509481984)
   \<and> samplingPct (fst (snd (throttle False (tripped\<lparr>rate := 190\<rparr>) streamingConsumer 20))) = 49
   \<and> throttle False (tripped\<lparr>rate := 95\<rparr>) streamingConsumer 20
       = (Returns None,
          streamingConsumer\<lparr>conn := Some (NewConn 1), socket := Some 1,
            samplingRate := Finite (9007199254740991 / 9007199254740992),
            throttles := 1, samplingPct := 99\<rparr>,
          [Breaker_Tick 20, Conn_Close (NewConn 0), RootNS_NewSocket,
           SetSockoptInt 1 SO_RCVBUFFORCE 1048576,
           SetBPF 1 (GenerateBPFSampler (Finite (9007199254740991 / 9007199254740992))),
           Breaker_Reset, Conn_JoinGroup (NewConn 1) 1])
   \<and> throttle False (tripped\<lparr>rate := 0\<rparr>) streamingConsumer 20
       = (Returns None,
          streamingConsumer\<lparr>conn := Some (NewConn 1), socket := Some 1,
            samplingRate := PosInf, throttles := 1, samplingPct := - 9223372036854775808\<rparr>,
          [Breaker_Tick 20, Conn_Close (NewConn 0), RootNS_NewSocket,
           SetSockoptInt 1 SO_RCVBUFFORCE 1048576, Breaker_Reset, Conn_JoinGroup (NewConn 1) 1])"
  by (simp add: trip_defs)

subsection \<open>Throttling\<close>

text \<open>
  C3. When the consumer is streaming, the kernel is older than 3.15 and the breaker is
  open after the Tick, throttle adds one to the throttles counter and changes nothing
  else in the consumer (connection, socket and sampling rate stay), its only calls are
  the Tick and the Reset of the breaker (no Close, no new socket), and it returns no
  error; the rest of the loop body then never returns, so the loop goes on.
\<close>

theorem throttle_pre315_trip:
  assumes "streaming c" and "isOpen (thr w)"
  shows "throttle True (thr w) c n =
           (Returns None, c\<lparr>throttles := throttles c + 1\<rparr>, [Breaker_Tick n, Breaker_Reset])
         \<and> fst (afterReceive True checkMessage w c) = Continue
         \<and> (\<forall>c0 c1. streaming c0 \<and> classify w c0 = Some c1 \<longrightarrow>
               fst (iteration True checkMessage w c0) = Continue)"
proof -
  have a: "\<And>c. streaming c \<Longrightarrow> fst (afterReceive True checkMessage w c) = Continue"
    using assms(2) by (simp add: throttle_def afterReceive_def Let_def)
  have "\<And>c0 c1. streaming c0 \<Longrightarrow> classify w c0 = Some c1 \<Longrightarrow>
          fst (iteration True checkMessage w c0) = Continue"
  proof -
    fix c0 c1
    assume s0: "streaming c0" and cl: "classify w c0 = Some c1"
    have "streaming c1"
      using classify_keeps [OF cl] s0 by simp
    then have "fst (afterReceive True checkMessage w c1) = Continue"
      by (rule a)
    then show "fst (iteration True checkMessage w c0) = Continue"
      using cl by (auto simp add: iteration_def Let_def split: prod.splits)
  qed
  then show ?thesis
    using assms a by (simp add: throttle_def Let_def)
qed

theorem throttle_pre315_trip_witness:
  "streaming streamingConsumer \<and> isOpen (thr (batch [dataMsg] None tripped))
   \<and> throttle True (thr (batch [dataMsg] None tripped)) streamingConsumer 1
       = (Returns None, streamingConsumer\<lparr>throttles := 1\<rparr>, [Breaker_Tick 1, Breaker_Reset])
   \<and> classify (batch [dataMsg] None tripped) streamingConsumer = Some streamingConsumer
   \<and> fst (iteration True rejectErrors (batch [dataMsg] None tripped) streamingConsumer) = Continue"
  using throttle_pre315_trip [of streamingConsumer "batch [dataMsg] None tripped" 1 rejectErrors]
  by (simp add: sample_defs classify_def)




subsection \<open>Socket initialisation\<close>

text \<open>
  C6, as the code has it. For a finite sampling rate s, when the socket opens and the
  float64 product y of s and 100 (the exact product rounded to nearest) lies in the range
  of int64, the stored sampling_pct is y cut off towards zero (the floor of y when y is
  not negative, the ceiling otherwise), not rounded: 35 for the float64 0.35, -18 for
  -18.75, 47 for 47.5. No error is returned when s is at least 1 (no filter is attached)
  or the filter generated for s attaches; when s is below 1 and attaching the filter
  fails, sampling_pct is 0 and the error is returned behind the prefix of
  initNetlinkSocket. The rate itself, the socket and the connection are stored in every
  one of these cases.
\<close>

theorem initNetlinkSocket_samplingPct:
  assumes "newSocket w = SocketOk sk"
    and "roundFloat64 (r * 100) = Finite y" and "- (2 ^ 63) \<le> y" and "y < 2 ^ 63"
  shows "initNetlinkSocket w c (Finite r) =
           (let pct = word_of_int (if 0 \<le> y then \<lfloor>y\<rfloor> else \<lceil>y\<rceil>);
                c' = c\<lparr>conn := Some (NewConn sk), socket := Some sk, samplingRate := Finite r,
                       samplingPct := pct\<rparr>;
                opened = [RootNS_NewSocket, SetSockoptInt sk SO_RCVBUFFORCE (1024 * 1024)]
                         @ (if listenAllNamespaces c then [SetSockoptInt sk NETLINK_LISTEN_ALL_NSID 1] else [])
            in if 1 \<le> r then (None, c', opened)
               else (case setBPF w of
                       None \<Rightarrow> (None, c', opened @ [SetBPF sk (GenerateBPFSampler (Finite r))])
                     | Some e \<Rightarrow> (Some (''failed to attach BPF filter: '' @ e), c'\<lparr>samplingPct := 0\<rparr>,
                                  opened @ [SetBPF sk (GenerateBPFSampler (Finite r))])))
         \<and> sint (word_of_int (if 0 \<le> y then \<lfloor>y\<rfloor> else \<lceil>y\<rceil>) :: int64)
             = (if 0 \<le> y then \<lfloor>y\<rfloor> else \<lceil>y\<rceil>)"
proof -
  let ?t = "if 0 \<le> y then \<lfloor>y\<rfloor> else \<lceil>y\<rceil>"
  have tz: "truncToZero y = ?t"
    by (simp add: truncToZero_def)
  have lo: "- (2 ^ 63) \<le> ?t"
  proof (cases "0 \<le> y")
    case True
    then have "0 \<le> \<lfloor>y\<rfloor>" by simp
    then show ?thesis using True by simp
  next
    case False
    have "- (2 ^ 63) \<le> \<lceil>y\<rceil>"
      using assms(3) by (simp add: le_ceiling_iff)
    then show ?thesis using False by simp
  qed
  have hi: "?t < 2 ^ 63"
  proof (cases "0 \<le> y")
    case True
    have "\<lfloor>y\<rfloor> < 2 ^ 63"
      using assms(4) by (simp add: floor_less_iff)
    then show ?thesis using True by simp
  next
    case False
    then have "\<lceil>y\<rceil> \<le> 0" by (simp add: ceiling_le_iff)
    then have "\<lceil>y\<rceil> < 2 ^ 63" by (rule le_less_trans) simp
    then show ?thesis using False by simp
  qed
  have conv: "int64_of_float64 (int64Platform w) (fmul (Finite r) (Finite 100)) = word_of_int ?t"
    using lo hi assms(2) tz by (simp add: int64_of_float64_def)
  have res: "initNetlinkSocket w c (Finite r) =
           (let pct = word_of_int ?t;
                c' = c\<lparr>conn := Some (NewConn sk), socket := Some sk, samplingRate := Finite r,
                       samplingPct := pct\<rparr>;
                opened = [RootNS_NewSocket, SetSockoptInt sk SO_RCVBUFFORCE (1024 * 1024)]
                         @ (if listenAllNamespaces c then [SetSockoptInt sk NETLINK_LISTEN_ALL_NSID 1] else [])
            in if 1 \<le> r then (None, c', opened)
               else (case setBPF w of
                       None \<Rightarrow> (None, c', opened @ [SetBPF sk (GenerateBPFSampler (Finite r))])
                     | Some e \<Rightarrow> (Some (''failed to attach BPF filter: '' @ e), c'\<lparr>samplingPct := 0\<rparr>,
                                  opened @ [SetBPF sk (GenerateBPFSampler (Finite r))])))"
    unfolding initNetlinkSocket_def using assms(1) conv
    by (simp add: Let_def netlinkBufferSize_def split: option.splits)
  have si: "sint (word_of_int ?t :: int64) = ?t"
    using lo hi by (rule sint_int64_in_range)
  show ?thesis using res si by (rule conjI)
qed

theorem initNetlinkSocket_samplingPct_witness:
  "newSocket (opens 1 None) = SocketOk 1
   \<and> roundFloat64 (3152519739159347 / 9007199254740992 * 100) = Finite 35
   \<and> - (2 ^ 63) \<le> (35 :: real) \<and> (35 :: real) < 2 ^ 63
   \<and> initNetlinkSocket (opens 1 None) streamingConsumer (Finite (3152519739159347 / 9007199254740992))
       = (None,
          streamingConsumer\<lparr>conn := Some (NewConn 1), socket := Some 1,
            samplingRate := Finite (3152519739159347 / 9007199254740992), samplingPct := 35\<rparr>,
          [RootNS_NewSocket, SetSockoptInt 1 SO_RCVBUFFORCE 1048576,
           SetBPF 1 (GenerateBPFSampler (Finite (3152519739159347 / 9007199254740992)))])
   \<and> sint (35 :: int64) = 35
   \<and> roundFloat64 (- (3 / 16) * 100) = Finite (- (75 / 4))
   \<and> - (2 ^ 63) \<le> (- (75 / 4) :: real) \<and> (- (75 / 4) :: real) < 2 ^ 63
   \<and> initNetlinkSocket (opens 1 None) streamingConsumer (Finite (- (3 / 16)))
       = (None,
          streamingConsumer\<lparr>conn := Some (NewConn 1), socket := Some 1,
            samplingRate := Finite (- (3 / 16)), samplingPct := - 18\<rparr>,
          [RootNS_NewSocket, SetSockoptInt 1 SO_RCVBUFFORCE 1048576,
           SetBPF 1 (GenerateBPFSampler (Finite (- (3 / 16))))])
   \<and> sint (- 18 :: int64) = - 18
   \<and> newSocket (opens 1 (Some ''operation not permitted'')) = SocketOk 1
   \<and> roundFloat64 (4278419646001971 / 9007199254740992 * 100) = Finite (95 / 2)
   \<and> - (2 ^ 63) \<le> (95 / 2 :: real) \<and> (95 / 2 :: real) < 2 ^ 63
   \<and> initNetlinkSocket (opens 1 (Some ''operation not permitted'')) streamingConsumer
         (Finite (4278419646001971 / 9007199254740992))
       = (Some ''failed to attach BPF filter: operation not permitted'',
          streamingConsumer\<lparr>conn := Some (NewConn 1), socket := Some 1,
            samplingRate := Finite (4278419646001971 / 9007199254740992), samplingPct := 0\<rparr>,
          [RootNS_NewSocket, SetSockoptInt 1 SO_RCVBUFFORCE 1048576,
           SetBPF 1 (GenerateBPFSampler (Finite (4278419646001971 / 9007199254740992)))])
   \<and> initNetlinkSocket (opens 1 None) streamingConsumer (Finite (3 / 2))
       = (None,
          streamingConsumer\<lparr>conn := Some (NewConn 1), socket := Some 1,
            samplingRate := Finite (3 / 2), samplingPct := 150\<rparr>,
          [RootNS_NewSocket, SetSockoptInt 1 SO_RCVBUFFORCE 1048576])"
  using initNetlinkSocket_samplingPct [of "opens 1 None" 1 "3152519739159347 / 9007199254740992" 35 streamingConsumer]
    initNetlinkSocket_samplingPct [of "opens 1 None" 1 "- (3 / 16)" "- (75 / 4)" streamingConsumer]
    initNetlinkSocket_samplingPct [of "opens 1 (Some ''operation not permitted'')" 1
       "4278419646001971 / 9007199254740992" "95 / 2" streamingConsumer]
    initNetlinkSocket_samplingPct [of "opens 1 None" 1 "3 / 2" 150 streamingConsumer]
  by (simp add: sample_defs float_defs netlinkBufferSize_def)

text \<open>
  C6 as stated fails: at the sampling rate 3/16 the float64 product is 18.75 and the
  stored value is 18 where rounding gives 19; after a trip with target 100, observed rate
  200 and prior sampling rate 1 the new rate is the float64 next to 0.475, its float64
  product with 100 is 47.5, and the stored value is 47 where rounding 47.5 gives 48.
\<close>

theorem samplingPct_is_not_rounded:
  "fmul (Finite (3 / 16)) (Finite 100) = Finite (75 / 4)
   \<and> sint (samplingPct (fst (snd (initNetlinkSocket (opens 1 None) streamingConsumer (Finite (3 / 16)))))) = 18
   \<and> round (75 / 4 :: real) = 19
   \<and> samplingRate (fst (snd (throttle False tripped streamingConsumer 20)))
       = Finite (4278419646001971 / 9007199254740992)
   \<and> fmul (Finite (4278419646001971 / 9007199254740992)) (Finite 100) = Finite (95 / 2)
   \<and> sint (samplingPct (fst (snd (throttle False tripped streamingConsumer 20)))) = 47
   \<and> round (95 / 2 :: real) = 48"
  by (simp add: trip_defs round_def)

subsection \<open>The receive loop\<close>

text \<open>
  C9. A pass through the loop whose receive error, if there is one, is not classified
  EOF, whose call of throttle returns no error and in which checkMessage accepts every
  message puts exactly one Event on the output queue: it carries the received messages
  (without a final Done message), the namespace id and the buffer of this pass. When
  ReceiveInto returned no message, for instance beside an ENOBUF error, the Event
  carries no message.
\<close>

theorem iteration_emits_one_event:
  assumes "classify w c = Some c1"
    and "fst (throttle p (thr w) c1 (int (length (recvMsgs w)))) = Returns None"
    and "\<forall>m \<in> set (recvMsgs w). checkMessage m = None"
  shows "\<exists>ev. outputs (snd (snd (iteration p checkMessage w c))) = [ev]
           \<and> msgs ev = (if multiPartDone (recvMsgs w) then butlast (recvMsgs w) else recvMsgs w)
           \<and> netns ev = recvNetns w \<and> buffer ev = poolGet w \<and> pool ev = cpool c
           \<and> (recvMsgs w = [] \<longrightarrow> msgs ev = [])"
proof -
  obtain r c2 effs where t: "throttle p (thr w) c1 (int (length (recvMsgs w))) = (r, c2, effs)"
    by (cases "throttle p (thr w) c1 (int (length (recvMsgs w)))") auto
  with assms(2) have t': "throttle p (thr w) c1 (int (length (recvMsgs w))) = (Returns None, c2, effs)"
    by simp
  have ne: "outputs effs = []"
    using throttle_outputs [of p "thr w" c1 "int (length (recvMsgs w))"] t by simp
  have pl: "cpool c2 = cpool c"
    using throttle_keeps [OF t] classify_keeps [OF assms(1)] by simp
  have va: "checkAll checkMessage (recvMsgs w)"
    using assms(3) by (simp add: checkAll_iff)
  show ?thesis
    using iteration_Some [OF assms(1) afterReceive_valid [OF t' va]] ne pl
    by (simp add: outputs_append eventFor_def multiPartDone_def)
qed

theorem iteration_emits_one_event_witness:
  "classify (batch [] (Some ''recvmsg: no buffer space available'') quiet) streamingConsumer
     = Some (streamingConsumer\<lparr>enobufs := 1\<rparr>)
   \<and> fst (throttle False (thr (batch [] (Some ''recvmsg: no buffer space available'') quiet))
           (streamingConsumer\<lparr>enobufs := 1\<rparr>)
           (int (length (recvMsgs (batch [] (Some ''recvmsg: no buffer space available'') quiet)))))
       = Returns None
   \<and> recvMsgs (batch [] (Some ''recvmsg: no buffer space available'') quiet) = []
   \<and> outputs (snd (snd (iteration False rejectErrors
         (batch [] (Some ''recvmsg: no buffer space available'') quiet) streamingConsumer)))
       = [\<lparr>msgs = [], netns = 0, buffer = 9, pool = 0\<rparr>]"
  using iteration_emits_one_event [of "batch [] (Some ''recvmsg: no buffer space available'') quiet"
      streamingConsumer "streamingConsumer\<lparr>enobufs := 1\<rparr>" False rejectErrors]
  by (simp add: loop_defs sample_defs)

text \<open>
  C5, as the code has it. In a pass that reaches the validation (the receive error, if
  there is one, is not classified EOF, and throttle returns no error), a batch with at
  least one message that checkMessage rejects adds exactly one to msg_errors, puts no
  Event on the output queue, and the loop goes on with the next pass.
\<close>

theorem iteration_drops_invalid_batch:
  assumes "classify w c = Some c1"
    and "fst (throttle p (thr w) c1 (int (length (recvMsgs w)))) = Returns None"
    and "\<exists>m \<in> set (recvMsgs w). checkMessage m \<noteq> None"
  shows "fst (iteration p checkMessage w c) = Continue
         \<and> msgErrors (fst (snd (iteration p checkMessage w c))) = msgErrors c + 1
         \<and> outputs (snd (snd (iteration p checkMessage w c))) = []"
proof -
  obtain r c2 effs where t: "throttle p (thr w) c1 (int (length (recvMsgs w))) = (r, c2, effs)"
    by (cases "throttle p (thr w) c1 (int (length (recvMsgs w)))") auto
  with assms(2) have t': "throttle p (thr w) c1 (int (length (recvMsgs w))) = (Returns None, c2, effs)"
    by simp
  have ne: "outputs effs = []"
    using throttle_outputs [of p "thr w" c1 "int (length (recvMsgs w))"] t by simp
  have me: "msgErrors c2 = msgErrors c"
    using throttle_keeps [OF t] classify_keeps [OF assms(1)] by simp
  have va: "\<not> checkAll checkMessage (recvMsgs w)"
    using assms(3) by (simp add: checkAll_iff)
  show ?thesis
    using iteration_Some [OF assms(1) afterReceive_invalid [OF t' va]] ne me
    by (simp add: outputs_append)
qed

theorem iteration_drops_invalid_batch_witness:
  "classify (batch [dataMsg, dataMsg, errorMsg] None quiet) streamingConsumer = Some streamingConsumer
   \<and> fst (throttle False (thr (batch [dataMsg, dataMsg, errorMsg] None quiet)) streamingConsumer
           (int (length (recvMsgs (batch [dataMsg, dataMsg, errorMsg] None quiet))))) = Returns None
   \<and> recvMsgs (batch [dataMsg, dataMsg, errorMsg] None quiet) = [dataMsg, dataMsg, errorMsg]
   \<and> rejectErrors errorMsg = Some ''netlink error''
   \<and> fst (iteration False rejectErrors (batch [dataMsg, dataMsg, errorMsg] None quiet)
           streamingConsumer) = Continue
   \<and> msgErrors (fst (snd (iteration False rejectErrors (batch [dataMsg, dataMsg, errorMsg] None quiet)
           streamingConsumer))) = 1
   \<and> outputs (snd (snd (iteration False rejectErrors (batch [dataMsg, dataMsg, errorMsg] None quiet)
           streamingConsumer))) = []"
  using iteration_drops_invalid_batch [of "batch [dataMsg, dataMsg, errorMsg] None quiet"
      streamingConsumer streamingConsumer False rejectErrors]
  by (simp add: loop_defs sample_defs)

text \<open>
  C5 as stated fails for a batch that never reaches the validation: when the breaker
  trips on a batch that holds an error frame and no new socket can be opened, the loop
  returns and msg_errors keeps its value.
\<close>

theorem invalid_batch_not_always_counted:
  "recvMsgs (batch [dataMsg, dataMsg, errorMsg] None trippedNoSocket) = [dataMsg, dataMsg, errorMsg]
   \<and> rejectErrors errorMsg = Some ''netlink error''
   \<and> fst (iteration False rejectErrors (batch [dataMsg, dataMsg, errorMsg] None trippedNoSocket)
           streamingConsumer) = Return
   \<and> msgErrors (fst (snd (iteration False rejectErrors
           (batch [dataMsg, dataMsg, errorMsg] None trippedNoSocket) streamingConsumer)))
       = msgErrors streamingConsumer"
  by (simp add: loop_defs sample_defs)

text \<open>
  C2, as the code has it. In a pass that reaches the end of the loop body (the receive
  error, if there is one, is not classified EOF, throttle returns no error, and
  checkMessage accepts every message), a batch whose last message has the header type
  Done is put on the output queue without that last message, and the loop returns
  after it exactly when the consumer is not streaming; when it is streaming the loop
  goes on.
\<close>

theorem iteration_strips_done:
  assumes "classify w c = Some c1"
    and "fst (throttle p (thr w) c1 (int (length (recvMsgs w)))) = Returns None"
    and "\<forall>m \<in> set (recvMsgs w). checkMessage m = None"
    and "recvMsgs w \<noteq> []" and "Header_Type (last (recvMsgs w)) = netlink_Done"
  shows "\<exists>ev. outputs (snd (snd (iteration p checkMessage w c))) = [ev]
           \<and> msgs ev = butlast (recvMsgs w)
           \<and> (fst (iteration p checkMessage w c) = Return \<longleftrightarrow> \<not> streaming c)
           \<and> (fst (iteration p checkMessage w c) = Continue \<longleftrightarrow> streaming c)"
proof -
  obtain r c2 effs where t: "throttle p (thr w) c1 (int (length (recvMsgs w))) = (r, c2, effs)"
    by (cases "throttle p (thr w) c1 (int (length (recvMsgs w)))") auto
  with assms(2) have t': "throttle p (thr w) c1 (int (length (recvMsgs w))) = (Returns None, c2, effs)"
    by simp
  have ne: "outputs effs = []"
    using throttle_outputs [of p "thr w" c1 "int (length (recvMsgs w))"] t by simp
  have sm: "streaming c2 = streaming c"
    using throttle_keeps [OF t] classify_keeps [OF assms(1)] by simp
  have va: "checkAll checkMessage (recvMsgs w)"
    using assms(3) by (simp add: checkAll_iff)
  have d: "multiPartDone (recvMsgs w)"
    using assms(4,5) by (simp add: multiPartDone_def)
  show ?thesis
    using iteration_Some [OF assms(1) afterReceive_valid [OF t' va]] ne sm d
    by (simp add: outputs_append eventFor_def)
qed

theorem iteration_strips_done_witness:
  "classify (batch [dataMsg, doneMsg] None quiet) dumpConsumer = Some dumpConsumer
   \<and> fst (throttle False (thr (batch [dataMsg, doneMsg] None quiet)) dumpConsumer
           (int (length (recvMsgs (batch [dataMsg, doneMsg] None quiet))))) = Returns None
   \<and> recvMsgs (batch [dataMsg, doneMsg] None quiet) = [dataMsg, doneMsg]
   \<and> rejectErrors dataMsg = None \<and> rejectErrors doneMsg = None
   \<and> recvMsgs (batch [dataMsg, doneMsg] None quiet) \<noteq> []
   \<and> Header_Type (last (recvMsgs (batch [dataMsg, doneMsg] None quiet))) = netlink_Done
   \<and> \<not> streaming dumpConsumer
   \<and> outputs (snd (snd (iteration False rejectErrors (batch [dataMsg, doneMsg] None quiet) dumpConsumer)))
       = [\<lparr>msgs = [dataMsg], netns = 0, buffer = 9, pool = 0\<rparr>]
   \<and> fst (iteration False rejectErrors (batch [dataMsg, doneMsg] None quiet) dumpConsumer) = Return
   \<and> classify (batch [dataMsg, doneMsg] None quiet) streamingConsumer = Some streamingConsumer
   \<and> fst (throttle False (thr (batch [dataMsg, doneMsg] None quiet)) streamingConsumer
           (int (length (recvMsgs (batch [dataMsg, doneMsg] None quiet))))) = Returns None
   \<and> streaming streamingConsumer
   \<and> outputs (snd (snd (iteration False rejectErrors (batch [dataMsg, doneMsg] None quiet)
           streamingConsumer))) = [\<lparr>msgs = [dataMsg], netns = 0, buffer = 9, pool = 0\<rparr>]
   \<and> fst (iteration False rejectErrors (batch [dataMsg, doneMsg] None quiet) streamingConsumer)
       = Continue"
  using iteration_strips_done [of "batch [dataMsg, doneMsg] None quiet" dumpConsumer dumpConsumer
      False rejectErrors]
    iteration_strips_done [of "batch [dataMsg, doneMsg] None quiet" streamingConsumer
      streamingConsumer False rejectErrors]
  by (simp add: loop_defs sample_defs)

text \<open>
  C2 as stated fails for batches that end in Done and do not reach the end of the loop
  body: during a dump, a batch of an error frame and a Done message is dropped whole and
  the loop goes on; while streaming, a Done message received when the breaker trips and
  no new socket can be opened ends the loop, and nothing is put on the queue.
\<close>

theorem done_batch_not_always_emitted:
  "recvMsgs (batch [errorMsg, doneMsg] None quiet) = [errorMsg, doneMsg]
   \<and> Header_Type (last [errorMsg, doneMsg]) = netlink_Done
   \<and> \<not> streaming dumpConsumer
   \<and> iteration False rejectErrors (batch [errorMsg, doneMsg] None quiet) dumpConsumer
       = (Continue, dumpConsumer\<lparr>msgErrors := 1\<rparr>, [Pool_Get 9, Socket_ReceiveInto 9])
   \<and> streaming streamingConsumer
   \<and> fst (iteration False rejectErrors (batch [doneMsg] None trippedNoSocket) streamingConsumer)
       = Return
   \<and> outputs (snd (snd (iteration False rejectErrors (batch [doneMsg] None trippedNoSocket)
         streamingConsumer))) = []"
  by (simp add: loop_defs sample_defs)

text \<open>
  C4, as the code has it. The error of ReceiveInto is classified by the first test that
  succeeds, in this order. An error whose message contains "closed file" ends the loop
  at once; the messages returned with it are not delivered. Otherwise an error whose
  message contains "no buffer space" adds one to enobufs, and any other error adds one
  to read_errors; in both cases the pass goes on exactly as a pass without error goes on
  for the same messages (throttle, validation, delivery), so the error by itself
  neither ends the loop nor keeps the messages from delivery.
\<close>

theorem iteration_receive_error:
  assumes "recvErr w = Some e"
  shows "(Contains e ''closed file'' \<longrightarrow>
            iteration p checkMessage w c
              = (Return, c, [Pool_Get (poolGet w), Socket_ReceiveInto (poolGet w)]))
         \<and> (\<not> Contains e ''closed file'' \<and> Contains e ''no buffer space'' \<longrightarrow>
              iteration p checkMessage w c
                = iteration p checkMessage (w\<lparr>recvErr := None\<rparr>) (c\<lparr>enobufs := enobufs c + 1\<rparr>)
              \<and> enobufs (fst (snd (iteration p checkMessage w c))) = enobufs c + 1
              \<and> readErrors (fst (snd (iteration p checkMessage w c))) = readErrors c)
         \<and> (\<not> Contains e ''closed file'' \<and> \<not> Contains e ''no buffer space'' \<longrightarrow>
              iteration p checkMessage w c
                = iteration p checkMessage (w\<lparr>recvErr := None\<rparr>) (c\<lparr>readErrors := readErrors c + 1\<rparr>)
              \<and> readErrors (fst (snd (iteration p checkMessage w c))) = readErrors c + 1
              \<and> enobufs (fst (snd (iteration p checkMessage w c))) = enobufs c)"
proof (intro conjI impI)
  assume "Contains e ''closed file''"
  then show "iteration p checkMessage w c
              = (Return, c, [Pool_Get (poolGet w), Socket_ReceiveInto (poolGet w)])"
    using assms by (simp add: iteration_def classify_def socketError_def)
next
  assume h: "\<not> Contains e ''closed file'' \<and> Contains e ''no buffer space''"
  then have cl: "classify w c = Some (c\<lparr>enobufs := enobufs c + 1\<rparr>)"
    using assms by (simp add: classify_def socketError_def)
  show "iteration p checkMessage w c
          = iteration p checkMessage (w\<lparr>recvErr := None\<rparr>) (c\<lparr>enobufs := enobufs c + 1\<rparr>)"
    using cl by (simp add: iteration_def classify_def afterReceive_recvErr)
  show "enobufs (fst (snd (iteration p checkMessage w c))) = enobufs c + 1"
    using iteration_keeps [OF cl] by simp
  show "readErrors (fst (snd (iteration p checkMessage w c))) = readErrors c"
    using iteration_keeps [OF cl] by simp
next
  assume h: "\<not> Contains e ''closed file'' \<and> \<not> Contains e ''no buffer space''"
  then have cl: "classify w c = Some (c\<lparr>readErrors := readErrors c + 1\<rparr>)"
    using assms by (simp add: classify_def socketError_def)
  show "iteration p checkMessage w c
          = iteration p checkMessage (w\<lparr>recvErr := None\<rparr>) (c\<lparr>readErrors := readErrors c + 1\<rparr>)"
    using cl by (simp add: iteration_def classify_def afterReceive_recvErr)
  show "readErrors (fst (snd (iteration p checkMessage w c))) = readErrors c + 1"
    using iteration_keeps [OF cl] by simp
  show "enobufs (fst (snd (iteration p checkMessage w c))) = enobufs c"
    using iteration_keeps [OF cl] by simp
qed

theorem iteration_receive_error_witness:
  "recvErr (batch [dataMsg] (Some ''read: use of closed file'') quiet) = Some ''read: use of closed file''
   \<and> Contains ''read: use of closed file'' ''closed file''
   \<and> fst (iteration False rejectErrors (batch [dataMsg] (Some ''read: use of closed file'') quiet)
           streamingConsumer) = Return
   \<and> recvErr (batch [dataMsg] (Some ''recvmsg: no buffer space available'') quiet)
       = Some ''recvmsg: no buffer space available''
   \<and> \<not> Contains ''recvmsg: no buffer space available'' ''closed file''
   \<and> Contains ''recvmsg: no buffer space available'' ''no buffer space''
   \<and> enobufs (fst (snd (iteration False rejectErrors
           (batch [dataMsg] (Some ''recvmsg: no buffer space available'') quiet) streamingConsumer))) = 1
   \<and> outputs (snd (snd (iteration False rejectErrors
           (batch [dataMsg] (Some ''recvmsg: no buffer space available'') quiet) streamingConsumer)))
       = [\<lparr>msgs = [dataMsg], netns = 0, buffer = 9, pool = 0\<rparr>]
   \<and> recvErr (batch [dataMsg] (Some ''recvmsg: interrupted system call'') quiet)
       = Some ''recvmsg: interrupted system call''
   \<and> \<not> Contains ''recvmsg: interrupted system call'' ''closed file''
   \<and> \<not> Contains ''recvmsg: interrupted system call'' ''no buffer space''
   \<and> readErrors (fst (snd (iteration False rejectErrors
           (batch [dataMsg] (Some ''recvmsg: interrupted system call'') quiet) streamingConsumer))) = 1"
  using iteration_receive_error [of "batch [dataMsg] (Some ''read: use of closed file'') quiet"
      "''read: use of closed file''" False rejectErrors streamingConsumer]
    iteration_receive_error [of "batch [dataMsg] (Some ''recvmsg: no buffer space available'') quiet"
      "''recvmsg: no buffer space available''" False rejectErrors streamingConsumer]
    iteration_receive_error [of "batch [dataMsg] (Some ''recvmsg: interrupted system call'') quiet"
      "''recvmsg: interrupted system call''" False rejectErrors streamingConsumer]
  by (simp add: loop_defs sample_defs)

text \<open>
  C4 as stated fails in three places: messages returned beside an error that contains
  "closed file" are not delivered; an error that contains both "no buffer space" and
  "closed file" ends the loop and leaves enobufs alone; and after an error that contains
  "no buffer space" the loop still returns, with no Event, when throttle fails.
\<close>

theorem receive_error_messages_not_always_delivered:
  "Contains ''read: use of closed file'' ''closed file''
   \<and> iteration False rejectErrors (batch [dataMsg] (Some ''read: use of closed file'') quiet)
        streamingConsumer = (Return, streamingConsumer, [Pool_Get 9, Socket_ReceiveInto 9])
   \<and> Contains ''no buffer space: use of closed file'' ''no buffer space''
   \<and> iteration False rejectErrors (batch [] (Some ''no buffer space: use of closed file'') quiet)
        streamingConsumer = (Return, streamingConsumer, [Pool_Get 9, Socket_ReceiveInto 9])
   \<and> Contains ''recvmsg: no buffer space available'' ''no buffer space''
   \<and> fst (iteration False rejectErrors
        (batch [] (Some ''recvmsg: no buffer space available'') trippedNoSocket)
        streamingConsumer) = Return
   \<and> outputs (snd (snd (iteration False rejectErrors
        (batch [] (Some ''recvmsg: no buffer space available'') trippedNoSocket)
        streamingConsumer))) = []"
  by (simp add: loop_defs sample_defs)

text \<open>
  The first end-to-end scenario of the specification, a dump of two batches: three
  messages, then a message and the Done message. Two Events, the loop returns, the flag
  is lowered.
\<close>

lemma simple_dump:
  "fst (receive False rejectErrors
          [batch [dataMsg, dataMsg, dataMsg] None quiet, batch [dataMsg, doneMsg] None quiet]
          dumpConsumer) = Return
   \<and> outputs (snd (snd (receive False rejectErrors
          [batch [dataMsg, dataMsg, dataMsg] None quiet, batch [dataMsg, doneMsg] None quiet]
          dumpConsumer)))
       = [\<lparr>msgs = [dataMsg, dataMsg, dataMsg], netns = 0, buffer = 9, pool = 0\<rparr>,
          \<lparr>msgs = [dataMsg], netns = 0, buffer = 9, pool = 0\<rparr>]
   \<and> recvLoopRunning (fst (snd (receive False rejectErrors
          [batch [dataMsg, dataMsg, dataMsg] None quiet, batch [dataMsg, doneMsg] None quiet]
          dumpConsumer))) = 0"
  by (simp add: receive_def loop_defs sample_defs)

subsection \<open>The peer-namespace query\<close>

text \<open>
  C7. isPeerNS returns false when the first message of the reply has the header type
  Error. When the query is sent and answered and the first message of the reply has
  another type, isPeerNS returns true exactly when the scan of the attributes of that
  message comes to an attribute of type NETNSA_NSID and the first such attribute has a
  value that is not negative as a signed 32-bit integer (no such attribute, or a
  decoder that cannot be made: false). A query that is not answered (encoding, sending
  or receiving fails) returns false.
\<close>

theorem isPeerNS_result:
  "(\<forall>m0 ms. receiveReply w = Inr (m0 # ms) \<and> Header_Type m0 = netlink_Error \<longrightarrow>
       fst (isPeerNS w cn ns c) = Returns False)
   \<and> (\<forall>data echo m0 ms.
         encode w (word_of_int ns) = Inr data \<and> send w = Inr echo
         \<and> receiveReply w = Inr (m0 # ms) \<and> Header_Type m0 \<noteq> netlink_Error \<longrightarrow>
         fst (isPeerNS w cn ns c) =
           Returns (case newAttributeDecoder w (Data m0) of
                      Inl e \<Rightarrow> False
                    | Inr (a, rest) \<Rightarrow>
                        (case find (\<lambda>x. Type x = NETNSA_NSID) (a # rest) of
                           None \<Rightarrow> False
                         | Some x \<Rightarrow> 0 \<le> sint (Uint32 x))))
   \<and> ((\<exists>e. encode w (word_of_int ns) = Inl e) \<or> (\<exists>e. send w = Inl e)
        \<or> (\<exists>e. receiveReply w = Inl e) \<longrightarrow>
        fst (isPeerNS w cn ns c) = Returns False)"
  by (auto simp add: isPeerNS_def Let_def scanNSID_find simp del: scanNSID.simps
      split: sum.splits list.splits prod.splits)

theorem isPeerNS_result_witness:
  "receiveReply (peerAnswers (Inr [replyMsg netlink_Error]) 5) = Inr [replyMsg netlink_Error]
   \<and> Header_Type (replyMsg netlink_Error) = netlink_Error
   \<and> fst (isPeerNS (peerAnswers (Inr [replyMsg netlink_Error]) 5) (NewConn 3) 7 dumpConsumer)
       = Returns False
   \<and> receiveReply (peerAnswers (Inr [replyMsg 88]) 5) = Inr [replyMsg 88]
   \<and> Header_Type (replyMsg 88) \<noteq> netlink_Error
   \<and> fst (isPeerNS (peerAnswers (Inr [replyMsg 88]) 5) (NewConn 3) 7 dumpConsumer) = Returns True
   \<and> fst (isPeerNS (peerAnswers (Inr [replyMsg 88]) (- 1)) (NewConn 3) 7 dumpConsumer) = Returns False
   \<and> receiveReply (peerAnswers (Inl ''recvmsg: interrupted system call'') 5)
       = Inl ''recvmsg: interrupted system call''
   \<and> fst (isPeerNS (peerAnswers (Inl ''recvmsg: interrupted system call'') 5) (NewConn 3) 7
         dumpConsumer) = Returns False"
  using isPeerNS_result [of "peerAnswers (Inr [replyMsg netlink_Error]) 5" "NewConn 3" 7 dumpConsumer]
    isPeerNS_result [of "peerAnswers (Inr [replyMsg 88]) 5" "NewConn 3" 7 dumpConsumer]
    isPeerNS_result [of "peerAnswers (Inr [replyMsg 88]) (- 1)" "NewConn 3" 7 dumpConsumer]
    isPeerNS_result [of "peerAnswers (Inl ''recvmsg: interrupted system call'') 5" "NewConn 3" 7
      dumpConsumer]
  by (simp add: peer_defs isPeerNS_def)

text \<open>
  C10. isPeerNS reads the first message of the reply without looking at the length of
  the reply: it panics (index out of range) exactly when the request was encoded and
  sent and Receive returned no error and no message. So the read is in bounds only if
  a Receive without error returns at least one message.
\<close>

theorem isPeerNS_panics_iff:
  "fst (isPeerNS w cn ns c) = Panics \<longleftrightarrow>
     (\<exists>data echo. encode w (word_of_int ns) = Inr data \<and> send w = Inr echo
                   \<and> receiveReply w = Inr [])"
  by (auto simp add: isPeerNS_def Let_def simp del: scanNSID.simps
      split: sum.splits list.splits prod.splits)

theorem isPeerNS_panics_iff_witness:
  "receiveReply (peerAnswers (Inr []) 5) = Inr []
   \<and> fst (isPeerNS (peerAnswers (Inr []) 5) (NewConn 3) 7 dumpConsumer) = Panics
   \<and> fst (isPeerNS (peerAnswers (Inr [replyMsg 88]) 5) (NewConn 3) 7 dumpConsumer) \<noteq> Panics"
  using isPeerNS_panics_iff [of "peerAnswers (Inr []) 5" "NewConn 3" 7 dumpConsumer]
    isPeerNS_panics_iff [of "peerAnswers (Inr [replyMsg 88]) 5" "NewConn 3" 7 dumpConsumer]
  by (simp add: peer_defs)

text \<open>
  C8, as the code has it. A query advances the sequence number exactly when it is sent
  and answered and the first message of the reply is not an error frame, and then by
  one modulo 2^32; every other query (encoding, sending or receiving fails, the reply
  is empty or an error frame) leaves it as it was. Below 2^32 - 1 the advance is a
  strict increase by one.
\<close>

theorem isPeerNS_sequence:
  "netlinkSeqNumber (fst (snd (isPeerNS w cn ns c))) =
     (if \<exists>data echo m0 ms. encode w (word_of_int ns) = Inr data \<and> send w = Inr echo
            \<and> receiveReply w = Inr (m0 # ms) \<and> Header_Type m0 \<noteq> netlink_Error
      then netlinkSeqNumber c + 1 else netlinkSeqNumber c)
   \<and> (netlinkSeqNumber c \<noteq> - 1 \<longrightarrow>
        netlinkSeqNumber c < netlinkSeqNumber c + 1
        \<and> unat (netlinkSeqNumber c + 1) = unat (netlinkSeqNumber c) + 1)"
proof -
  have w: "netlinkSeqNumber c \<noteq> - 1 \<longrightarrow>
        netlinkSeqNumber c < netlinkSeqNumber c + 1
        \<and> unat (netlinkSeqNumber c + 1) = unat (netlinkSeqNumber c) + 1"
    using word_inc [of "netlinkSeqNumber c"] by blast
  have s: "netlinkSeqNumber (fst (snd (isPeerNS w cn ns c))) =
     (if \<exists>data echo m0 ms. encode w (word_of_int ns) = Inr data \<and> send w = Inr echo
            \<and> receiveReply w = Inr (m0 # ms) \<and> Header_Type m0 \<noteq> netlink_Error
      then netlinkSeqNumber c + 1 else netlinkSeqNumber c)"
    by (auto simp add: isPeerNS_def Let_def simp del: scanNSID.simps
      split: sum.splits list.splits prod.splits)
  show ?thesis using w s by blast
qed

theorem isPeerNS_sequence_witness:
  "netlinkSeqNumber dumpConsumer = 1 \<and> netlinkSeqNumber dumpConsumer \<noteq> - 1
   \<and> netlinkSeqNumber (fst (snd (isPeerNS (peerAnswers (Inr [replyMsg 88]) 5) (NewConn 3) 7
        dumpConsumer))) = 2
   \<and> netlinkSeqNumber (fst (snd (isPeerNS (peerAnswers (Inr [replyMsg netlink_Error]) 5) (NewConn 3) 7
        dumpConsumer))) = 1
   \<and> netlinkSeqNumber (fst (snd (isPeerNS (peerAnswers (Inl ''recvmsg: interrupted system call'') 5)
        (NewConn 3) 7 dumpConsumer))) = 1"
  using isPeerNS_sequence [of "peerAnswers (Inr [replyMsg 88]) 5" "NewConn 3" 7 dumpConsumer]
    isPeerNS_sequence [of "peerAnswers (Inr [replyMsg netlink_Error]) 5" "NewConn 3" 7 dumpConsumer]
    isPeerNS_sequence [of "peerAnswers (Inl ''recvmsg: interrupted system call'') 5" "NewConn 3" 7
      dumpConsumer]
  by (simp add: peer_defs)

text \<open>
  C8 as stated fails at the largest sequence number: a successful query takes
  2^32 - 1 to 0, which is not an increase.
\<close>

theorem sequence_number_wraps:
  "netlinkSeqNumber (dumpConsumer\<lparr>netlinkSeqNumber := 4294967295\<rparr>) = 4294967295
   \<and> fst (isPeerNS (peerAnswers (Inr [replyMsg 88]) 5) (NewConn 3) 7
        (dumpConsumer\<lparr>netlinkSeqNumber := 4294967295\<rparr>)) = Returns True
   \<and> netlinkSeqNumber (fst (snd (isPeerNS (peerAnswers (Inr [replyMsg 88]) 5) (NewConn 3) 7
        (dumpConsumer\<lparr>netlinkSeqNumber := 4294967295\<rparr>)))) = 0
   \<and> \<not> netlinkSeqNumber (dumpConsumer\<lparr>netlinkSeqNumber := 4294967295\<rparr>)
        < netlinkSeqNumber (fst (snd (isPeerNS (peerAnswers (Inr [replyMsg 88]) 5) (NewConn 3) 7
            (dumpConsumer\<lparr>netlinkSeqNumber := 4294967295\<rparr>))))"
  by (simp add: peer_defs isPeerNS_def)

end
